theory Spec2Isabelle
  imports Complex_Main "HOL-Library.Sublist"
begin

section \<open>Runtime values of the source language\<close>

text \<open>
  The nearby-places layer lives in \<^verbatim>\<open>src/utils/osm.ts\<close>.  Its functions are embedded
  here as HOL functions over an explicit world (clock, cache, network trace).

  Modelling decisions, stated once:
  \<^item> A JavaScript number is a \<^typ>\<open>rat\<close>: every finite double is a rational, and
    \<^verbatim>\<open>Math.min\<close>, \<^verbatim>\<open>Math.max\<close>, comparison and \<^verbatim>\<open>toFixed\<close> are defined on the
    mathematical value.  \<^verbatim>\<open>NaN\<close> and the infinities are not represented.
  \<^item> \<^verbatim>\<open>Number::toString\<close> (used by template literals) prints the shortest decimal that
    reads back as the same double; that is a property of the binary format, so the
    functions take it as the parameter \<open>nts\<close>.  \<open>intString\<close> below agrees with it on
    integers and is used for concrete runs.
  \<^item> A string is a \<^typ>\<open>string\<close>; \<open>trim\<close> and \<open>toLowerCase\<close> act on the ASCII range
    (white space 0x09-0x0D and 0x20, letters A-Z), every other character is kept.
  \<^item> A value read from the provider is a \<open>json\<close> value; a property read that finds
    nothing is \<open>None\<close> (\<^verbatim>\<open>undefined\<close>); an exception is the \<open>Inl\<close> branch of a sum.
  \<^item> One call of \<open>fetchNearbyOsmPlaces\<close> runs from start to end without another call
    interleaving; arrays handed to the caller are values (a caller that mutates a
    returned array in place is outside the model).
\<close>

subsection \<open>Strings\<close>

definition isWhite :: "char \<Rightarrow> bool" where
  "isWhite c = (c \<in> set [CHR 0x09, CHR 0x0A, CHR 0x0B, CHR 0x0C, CHR 0x0D, CHR '' ''])"

definition trim :: "string \<Rightarrow> string" where
  "trim s = rev (dropWhile isWhite (rev (dropWhile isWhite s)))"

definition lowerChar :: "char \<Rightarrow> char" where
  "lowerChar c =
     (let n = (of_char c :: nat) in if 65 \<le> n \<and> n \<le> 90 then char_of (n + 32) else c)"

definition toLowerCase :: "string \<Rightarrow> string" where
  "toLowerCase s = map lowerChar s"

text \<open>\<^verbatim>\<open>s.includes(t)\<close>: \<open>t\<close> starts at some position of \<open>s\<close>.\<close>

fun str_includes :: "string \<Rightarrow> string \<Rightarrow> bool" where
  "str_includes [] t = (t = [])"
| "str_includes (c # s) t = (prefix t (c # s) \<or> str_includes s t)"

text \<open>\<^verbatim>\<open>xs.join(sep)\<close> on an array of strings.\<close>

fun join :: "string \<Rightarrow> string list \<Rightarrow> string" where
  "join sep [] = []"
| "join sep [x] = x"
| "join sep (x # y # ys) = x @ sep @ join sep (y # ys)"

subsection \<open>Numbers\<close>

definition digit :: "nat \<Rightarrow> char" where
  "digit d = ''0123456789'' ! d"

fun digits :: "nat \<Rightarrow> string" where
  "digits n = (if n < 10 then [digit n] else digits (n div 10) @ [digit (n mod 10)])"

declare digits.simps [simp del]

text \<open>
  \<^verbatim>\<open>x.toFixed(f)\<close> for \<open>\<bar>x\<bar> < 10^21\<close> (ECMA-262, Number.prototype.toFixed): the sign is
  taken off, \<open>n\<close> is the integer with \<open>n / 10^f\<close> nearest to \<open>x\<close> (the larger one on a
  tie), and its digits are padded with zeros to at least \<open>f + 1\<close> places.
\<close>

definition toFixed :: "nat \<Rightarrow> rat \<Rightarrow> string" where
  "toFixed f x =
    (let s = (if x < 0 then ''-'' else '''');
         n = nat \<lfloor>\<bar>x\<bar> * 10 ^ f + 1 / 2\<rfloor>;
         m0 = digits n;
         m = (if f \<noteq> 0 \<and> length m0 \<le> f
              then replicate (f + 1 - length m0) (CHR ''0'') @ m0 else m0)
     in if f = 0 then s @ m
        else s @ take (length m - f) m @ ''.'' @ drop (length m - f) m)"

text \<open>Decimal rendering of an integer-valued number; the fractional part is ignored.\<close>

definition intString :: "rat \<Rightarrow> string" where
  "intString x = (if x < 0 then ''-'' else '''') @ digits (nat \<lfloor>\<bar>x\<bar>\<rfloor>)"

subsection \<open>JSON values and the dynamic operations the code applies to them\<close>

datatype json =
    JNull
  | JBool bool
  | JNum rat
  | JStr string
  | JArr "json list"
  | JObj "(string \<times> json) list"

datatype error =
    TypeError
  | NetworkError
  | AbortError
  | OverpassError nat
  | SyntaxError
  | RequestFailed

text \<open>
  \<^verbatim>\<open>v.k\<close> on a value that is neither \<^verbatim>\<open>null\<close> nor \<^verbatim>\<open>undefined\<close>, for the property
  names this module reads (none of them lives on a prototype): only an object has them.
\<close>

fun getProp :: "json \<Rightarrow> string \<Rightarrow> json option" where
  "getProp (JObj kvs) k = map_of kvs k"
| "getProp _ k = None"

text \<open>\<^verbatim>\<open>v?.k\<close>: \<^verbatim>\<open>undefined\<close> when \<open>v\<close> is \<^verbatim>\<open>null\<close> or \<^verbatim>\<open>undefined\<close>.\<close>

fun optProp :: "json option \<Rightarrow> string \<Rightarrow> json option" where
  "optProp None k = None"
| "optProp (Some JNull) k = None"
| "optProp (Some v) k = getProp v k"

fun truthy :: "json option \<Rightarrow> bool" where
  "truthy None = False"
| "truthy (Some JNull) = False"
| "truthy (Some (JBool b)) = b"
| "truthy (Some (JNum r)) = (r \<noteq> 0)"
| "truthy (Some (JStr s)) = (s \<noteq> [])"
| "truthy (Some (JArr xs)) = True"
| "truthy (Some (JObj kvs)) = True"

text \<open>\<^verbatim>\<open>a || b\<close>\<close>

definition orElse :: "json option \<Rightarrow> json option \<Rightarrow> json option" where
  "orElse a b = (if truthy a then a else b)"

text \<open>\<^verbatim>\<open>typeof v === 'number'\<close>\<close>

fun isNumber :: "json option \<Rightarrow> bool" where
  "isNumber (Some (JNum r)) = True"
| "isNumber _ = False"

text \<open>
  \<^verbatim>\<open>String(v)\<close> as a template literal and \<^verbatim>\<open>Array.prototype.join\<close> apply it.  An
  array prints its elements separated by commas, \<^verbatim>\<open>null\<close> elements as the empty string;
  a plain object prints as \<^verbatim>\<open>[object Object]\<close> unless it has an own (hence non-callable)
  \<^verbatim>\<open>toString\<close> property, in which case the conversion throws.
\<close>

fun jsString :: "(rat \<Rightarrow> string) \<Rightarrow> json \<Rightarrow> error + string"
  and jsStrings :: "(rat \<Rightarrow> string) \<Rightarrow> json list \<Rightarrow> error + string list" where
  "jsString nts JNull = Inr ''null''"
| "jsString nts (JBool b) = Inr (if b then ''true'' else ''false'')"
| "jsString nts (JNum r) = Inr (nts r)"
| "jsString nts (JStr s) = Inr s"
| "jsString nts (JArr xs) =
     (case jsStrings nts xs of Inl e \<Rightarrow> Inl e | Inr ss \<Rightarrow> Inr (join '','' ss))"
| "jsString nts (JObj kvs) =
     (if ''toString'' \<in> set (map fst kvs) then Inl TypeError else Inr ''[object Object]'')"
| "jsStrings nts [] = Inr []"
| "jsStrings nts (x # xs) =
     (case (if x = JNull then Inr [] else jsString nts x) of
        Inl e \<Rightarrow> Inl e
      | Inr s \<Rightarrow> (case jsStrings nts xs of Inl e \<Rightarrow> Inl e | Inr ss \<Rightarrow> Inr (s # ss)))"

text \<open>\<^verbatim>\<open>${v}\<close> where \<open>v\<close> may be \<^verbatim>\<open>undefined\<close>.\<close>

fun templ :: "(rat \<Rightarrow> string) \<Rightarrow> json option \<Rightarrow> error + string" where
  "templ nts None = Inr ''undefined''"
| "templ nts (Some v) = jsString nts v"

section \<open>Data model\<close>

record OsmLatLng =
  lat :: rat
  lng :: rat

text \<open>
  \<^verbatim>\<open>OsmPlace\<close> has the fields of \<^verbatim>\<open>OsmLatLng\<close> and four more; \<open>tags\<close> holds the element's
  tag object as it was received.
\<close>

record OsmPlace = OsmLatLng +
  place_id :: string
  name :: string
  address :: string
  tags :: json

datatype kind = restaurant | hospital | police | attraction | bus_station

fun kindName :: "kind \<Rightarrow> string" where
  "kindName restaurant = ''restaurant''"
| "kindName hospital = ''hospital''"
| "kindName police = ''police''"
| "kindName attraction = ''attraction''"
| "kindName bus_station = ''bus_station''"

record options =
  radiusMeters :: rat
  kinds :: "kind list"
  limit :: "rat option"
  query :: "string option"

definition OVERPASS_ENDPOINTS :: "string list" where
  "OVERPASS_ENDPOINTS =
     [''https://overpass-api.de/api/interpreter'',
      ''https://overpass.kumi.systems/api/interpreter'',
      ''https://overpass.nchc.org.tw/api/interpreter'']"

text \<open>A cache entry \<^verbatim>\<open>{ at, data }\<close>; \<open>at_ms\<close> is the source's \<^verbatim>\<open>at\<close>.\<close>

record cache_entry =
  at_ms :: int
  data :: "OsmPlace list"

section \<open>The world: clock, cache and network\<close>

text \<open>
  \<open>now\<close> is what \<^verbatim>\<open>Date.now()\<close> returns (milliseconds), \<open>cache\<close> the module-level
  \<^verbatim>\<open>Map\<close>, \<open>trace\<close> the requests sent and the back-off sleeps taken so far, oldest first.
  \<open>Fetch e q\<close> is a POST to the endpoint \<open>e\<close> whose form field \<^verbatim>\<open>data\<close> is the query
  \<open>q\<close>; \<open>Sleep ms\<close> is \<^verbatim>\<open>await sleep(ms)\<close>, which moves the clock by \<open>ms\<close>.
\<close>

datatype event = Fetch string string | Sleep nat

record world =
  now :: int
  cache :: "string \<rightharpoonup> cache_entry"
  trace :: "event list"

text \<open>
  What the provider does with a request: \<open>Rejected\<close> (the \<^verbatim>\<open>fetch\<close> promise rejects), or
  a response with a status and a body that parses as JSON (\<open>Some\<close>) or does not.
  The network is a function from the history so far, the endpoint and the query to
  the time the request takes (milliseconds) and its reply.
\<close>

datatype reply = Rejected | Response nat "json option"

type_synonym network = "event list \<Rightarrow> string \<Rightarrow> string \<Rightarrow> nat \<times> reply"

definition sleep :: "nat \<Rightarrow> world \<Rightarrow> world" where
  "sleep ms w = w\<lparr>now := now w + int ms, trace := trace w @ [Sleep ms]\<rparr>"

text \<open>\<^verbatim>\<open>res.ok\<close>\<close>

definition ok :: "nat \<Rightarrow> bool" where
  "ok status = (200 \<le> status \<and> status \<le> 299)"

text \<open>
  The body of the \<^verbatim>\<open>try\<close> block: one request, aborted by the controller when it has
  not settled after 12 seconds; a status outside 200-299 and an unreadable body throw.
\<close>

definition attemptFetch :: "network \<Rightarrow> string \<Rightarrow> string \<Rightarrow> world \<Rightarrow> (error + json) \<times> world" where
  "attemptFetch net endpoint q w =
     (let (ms, r) = net (trace w) endpoint q;
          sent = trace w @ [Fetch endpoint q]
      in if 12000 \<le> ms then (Inl AbortError, w\<lparr>now := now w + 12000, trace := sent\<rparr>)
         else
           (case r of
              Rejected \<Rightarrow> Inl NetworkError
            | Response status body \<Rightarrow>
                if \<not> ok status then Inl (OverpassError status)
                else (case body of None \<Rightarrow> Inl SyntaxError | Some j \<Rightarrow> Inr j),
            w\<lparr>now := now w + int ms, trace := sent\<rparr>))"

section \<open>overpassFetch\<close>

function overpassLoop ::
  "network \<Rightarrow> string \<Rightarrow> nat \<Rightarrow> error option \<Rightarrow> world \<Rightarrow> (error + json) \<times> world" where
  "overpassLoop net q attempt lastErr w =
     (if attempt < 3 then
        (let endpoint = OVERPASS_ENDPOINTS ! (attempt mod length OVERPASS_ENDPOINTS) in
         case attemptFetch net endpoint q w of
           (Inr j, w1) \<Rightarrow> (Inr j, w1)
         | (Inl e, w1) \<Rightarrow> overpassLoop net q (attempt + 1) (Some e) (sleep (400 * (attempt + 1)) w1))
      else (Inl (case lastErr of Some e \<Rightarrow> e | None \<Rightarrow> RequestFailed), w))"
  by pat_completeness auto
termination
  by (relation "measure (\<lambda>(net, q, attempt, lastErr, w). 3 - attempt)") auto

declare overpassLoop.simps [simp del]

definition overpassFetch :: "network \<Rightarrow> string \<Rightarrow> world \<Rightarrow> (error + json) \<times> world" where
  "overpassFetch net q w = overpassLoop net q 0 None w"

section \<open>fetchNearbyOsmPlaces\<close>

definition clampRadius :: "rat \<Rightarrow> rat" where
  "clampRadius r = max 100 (min r 50000)"

definition clampLimit :: "rat option \<Rightarrow> rat" where
  "clampLimit l = max 1 (min (case l of None \<Rightarrow> 30 | Some v \<Rightarrow> v) 50)"

fun kindToOverpass :: "kind \<Rightarrow> string list" where
  "kindToOverpass restaurant =
     [''node[amenity=restaurant]'', ''way[amenity=restaurant]'', ''relation[amenity=restaurant]'']"
| "kindToOverpass hospital =
     [''node[amenity=hospital]'', ''way[amenity=hospital]'', ''relation[amenity=hospital]'']"
| "kindToOverpass police =
     [''node[amenity=police]'', ''way[amenity=police]'', ''relation[amenity=police]'']"
| "kindToOverpass bus_station =
     [''node[amenity=bus_station]'', ''way[amenity=bus_station]'', ''relation[amenity=bus_station]'',
      ''node[highway=bus_stop]'', ''way[highway=bus_stop]'', ''relation[highway=bus_stop]'']"
| "kindToOverpass attraction =
     [''node[tourism=attraction]'', ''way[tourism=attraction]'', ''relation[tourism=attraction]'',
      ''node[tourism=museum]'', ''way[tourism=museum]'', ''relation[tourism=museum]'',
      ''node[historic]'', ''way[historic]'', ''relation[historic]'',
      ''node[amenity=place_of_worship]'', ''way[amenity=place_of_worship]'',
      ''relation[amenity=place_of_worship]'']"

text \<open>\<^verbatim>\<open>options.kinds.flatMap((k) => kindToOverpass[k] ?? [])\<close>\<close>

definition parts :: "kind list \<Rightarrow> string list" where
  "parts ks = concat (map kindToOverpass ks)"

definition around :: "(rat \<Rightarrow> string) \<Rightarrow> OsmLatLng \<Rightarrow> rat \<Rightarrow> string" where
  "around nts origin radius =
     ''(around:'' @ nts radius @ '','' @ nts (lat origin) @ '','' @ nts (lng origin) @ '')''"

definition newline :: string where
  "newline = [CHR 0x0A]"

text \<open>The query text \<open>q\<close>; the template literal spans four lines of the source.\<close>

definition buildQuery :: "(rat \<Rightarrow> string) \<Rightarrow> OsmLatLng \<Rightarrow> rat \<Rightarrow> rat \<Rightarrow> string list \<Rightarrow> string" where
  "buildQuery nts origin radius lmt ps =
     ''['' @ newline @ ''    out:json'' @ newline @ ''  ][timeout:25];('' @ newline @ ''    ''
     @ join (newline @ ''    '') (map (\<lambda>p. p @ around nts origin radius @ '';'') ps)
     @ newline @ ''  );out center '' @ nts lmt @ '';''"

definition queryLower :: "string option \<Rightarrow> string" where
  "queryLower qo = toLowerCase (trim (case qo of None \<Rightarrow> [] | Some s \<Rightarrow> s))"

definition cacheKey :: "(rat \<Rightarrow> string) \<Rightarrow> OsmLatLng \<Rightarrow> options \<Rightarrow> string" where
  "cacheKey nts origin opts =
     toFixed 5 (lat origin) @ '','' @ toFixed 5 (lng origin) @ ''|''
     @ nts (clampRadius (radiusMeters opts)) @ ''|''
     @ join '','' (map kindName (kinds opts)) @ ''|''
     @ queryLower (query opts)"

text \<open>\<^verbatim>\<open>cached && Date.now() - cached.at < 60_000\<close>\<close>

definition fresh :: "world \<Rightarrow> string \<Rightarrow> bool" where
  "fresh w key = (case cache w key of None \<Rightarrow> False | Some c \<Rightarrow> now w - at_ms c < 60000)"

subsection \<open>Normalising one element\<close>

text \<open>\<^verbatim>\<open>el.tags ?? {}\<close>\<close>

definition tagsOf :: "json \<Rightarrow> json" where
  "tagsOf el = (case getProp el ''tags'' of None \<Rightarrow> JObj [] | Some JNull \<Rightarrow> JObj [] | Some t \<Rightarrow> t)"

definition latOf :: "json \<Rightarrow> json option" where
  "latOf el = (if isNumber (getProp el ''lat'') then getProp el ''lat''
               else optProp (getProp el ''center'') ''lat'')"

definition lngOf :: "json \<Rightarrow> json option" where
  "lngOf el = (if isNumber (getProp el ''lon'') then getProp el ''lon''
               else optProp (getProp el ''center'') ''lon'')"

text \<open>\<^verbatim>\<open>tags.name || tags.brand || tags.operator || ''\<close>\<close>

definition nameCandidate :: "json \<Rightarrow> json option" where
  "nameCandidate t =
     orElse (orElse (orElse (getProp t ''name'') (getProp t ''brand'')) (getProp t ''operator''))
       (Some (JStr []))"

text \<open>\<^verbatim>\<open>(...).trim()\<close>: a value that is not a string has no callable \<^verbatim>\<open>trim\<close>.\<close>

definition rawName :: "json \<Rightarrow> error + string" where
  "rawName t = (case nameCandidate t of Some (JStr s) \<Rightarrow> Inr (trim s) | _ \<Rightarrow> Inl TypeError)"

definition addressParts :: "json \<Rightarrow> json option list" where
  "addressParts t =
     filter truthy
       [getProp t ''addr:housenumber'',
        getProp t ''addr:street'',
        getProp t ''addr:suburb'',
        orElse (orElse (getProp t ''addr:city'') (getProp t ''addr:town'')) (getProp t ''addr:village''),
        getProp t ''addr:state'']"

fun sequence :: "(error + 'a) list \<Rightarrow> error + 'a list" where
  "sequence [] = Inr []"
| "sequence (r # rs) =
     (case r of Inl e \<Rightarrow> Inl e
      | Inr x \<Rightarrow> (case sequence rs of Inl e \<Rightarrow> Inl e | Inr xs \<Rightarrow> Inr (x # xs)))"

text \<open>\<^verbatim>\<open>addressParts.join(', ')\<close>: every part left by the filter is converted to a string.\<close>

definition addressOf :: "(rat \<Rightarrow> string) \<Rightarrow> json \<Rightarrow> error + string" where
  "addressOf nts t =
     (case sequence (map (templ nts) (addressParts t)) of
        Inl e \<Rightarrow> Inl e | Inr ss \<Rightarrow> Inr (join '', '' ss))"

text \<open>\<^verbatim>\<open>`${el.type}/${el.id}`\<close>\<close>

definition idOf :: "(rat \<Rightarrow> string) \<Rightarrow> json \<Rightarrow> error + string" where
  "idOf nts el =
     (case templ nts (getProp el ''type'') of
        Inl e \<Rightarrow> Inl e
      | Inr a \<Rightarrow> (case templ nts (getProp el ''id'') of Inl e \<Rightarrow> Inl e | Inr b \<Rightarrow> Inr (a @ ''/'' @ b)))"

text \<open>
  The callback of \<^verbatim>\<open>elements.map\<close>: \<open>Inr None\<close> is its \<^verbatim>\<open>return null\<close>, \<open>Inl\<close> an
  exception (reading a property of \<^verbatim>\<open>null\<close>, calling \<^verbatim>\<open>trim\<close> on a non-string, a failing
  string conversion).
\<close>

definition normalizeElement :: "(rat \<Rightarrow> string) \<Rightarrow> json \<Rightarrow> error + OsmPlace option" where
  "normalizeElement nts el =
     (if el = JNull then Inl TypeError
      else
        let t = tagsOf el in
        (case (latOf el, lngOf el) of
           (Some (JNum la), Some (JNum lo)) \<Rightarrow>
             (case rawName t of
                Inl e \<Rightarrow> Inl e
              | Inr rn \<Rightarrow>
                  if rn = [] then Inr None
                  else
                    (case addressOf nts t of
                       Inl e \<Rightarrow> Inl e
                     | Inr ad \<Rightarrow>
                         (case idOf nts el of
                            Inl e \<Rightarrow> Inl e
                          | Inr i \<Rightarrow>
                              Inr (Some \<lparr>lat = la, lng = lo, place_id = i, name = rn,
                                         address = ad, tags = t\<rparr>))))
         | _ \<Rightarrow> Inr None))"

text \<open>\<^verbatim>\<open>elements.map(...).filter(Boolean)\<close>; the first exception ends the call.\<close>

fun mapped :: "(rat \<Rightarrow> string) \<Rightarrow> json list \<Rightarrow> error + OsmPlace list" where
  "mapped nts [] = Inr []"
| "mapped nts (el # els) =
     (case normalizeElement nts el of
        Inl e \<Rightarrow> Inl e
      | Inr r \<Rightarrow>
          (case mapped nts els of
             Inl e \<Rightarrow> Inl e
           | Inr ps \<Rightarrow> Inr (case r of None \<Rightarrow> ps | Some p \<Rightarrow> p # ps)))"

text \<open>\<^verbatim>\<open>Array.isArray(data.elements) ? data.elements : []\<close>\<close>

definition elementsOf :: "json \<Rightarrow> json list" where
  "elementsOf d = (case getProp d ''elements'' of Some (JArr els) \<Rightarrow> els | _ \<Rightarrow> [])"

definition matches :: "string \<Rightarrow> OsmPlace \<Rightarrow> bool" where
  "matches ql p =
     (str_includes (toLowerCase (name p)) ql \<or> str_includes (toLowerCase (address p)) ql)"

definition filtered :: "string \<Rightarrow> OsmPlace list \<Rightarrow> OsmPlace list" where
  "filtered ql ps = (if ql \<noteq> [] then filter (matches ql) ps else ps)"

text \<open>\<^verbatim>\<open>xs.slice(0, limit)\<close> for a limit of at least 1: the limit is truncated to an integer.\<close>

definition slice0 :: "rat \<Rightarrow> 'a list \<Rightarrow> 'a list" where
  "slice0 lmt xs = take (nat \<lfloor>lmt\<rfloor>) xs"

text \<open>Lines 121-158: from the parsed response to the list that is stored and returned.\<close>

definition normalizeResponse :: "(rat \<Rightarrow> string) \<Rightarrow> string \<Rightarrow> rat \<Rightarrow> json \<Rightarrow> error + OsmPlace list" where
  "normalizeResponse nts ql lmt d =
     (if d = JNull then Inl TypeError
      else
        (case mapped nts (elementsOf d) of
           Inl e \<Rightarrow> Inl e
         | Inr ps \<Rightarrow> Inr (slice0 lmt (filtered ql ps))))"

definition fetchNearbyOsmPlaces ::
  "(rat \<Rightarrow> string) \<Rightarrow> network \<Rightarrow> OsmLatLng \<Rightarrow> options \<Rightarrow> world \<Rightarrow> (error + OsmPlace list) \<times> world" where
  "fetchNearbyOsmPlaces nts net origin opts w =
     (let radius = clampRadius (radiusMeters opts);
          lmt = clampLimit (limit opts);
          ps = parts (kinds opts)
      in if length ps = 0 then (Inr [], w)
         else
           let q = buildQuery nts origin radius lmt ps;
               key = cacheKey nts origin opts
           in if fresh w key then (Inr (data (the (cache w key))), w)
              else
                (case overpassFetch net q w of
                   (Inl e, w1) \<Rightarrow> (Inl e, w1)
                 | (Inr d, w1) \<Rightarrow>
                     (case normalizeResponse nts (queryLower (query opts)) lmt d of
                        Inl e \<Rightarrow> (Inl e, w1)
                      | Inr result \<Rightarrow>
                          (Inr result,
                           w1\<lparr>cache := (cache w1)(key \<mapsto> \<lparr>at_ms = now w1, data = result\<rparr>)\<rparr>))))"

section \<open>Notions used to state the properties\<close>

text \<open>The query a call sends (the source's \<^verbatim>\<open>q\<close>) and the endpoint of attempt \<open>i\<close>.\<close>

definition queryOf :: "(rat \<Rightarrow> string) \<Rightarrow> OsmLatLng \<Rightarrow> options \<Rightarrow> string" where
  "queryOf nts origin opts =
     buildQuery nts origin (clampRadius (radiusMeters opts)) (clampLimit (limit opts))
       (parts (kinds opts))"

definition endpointFor :: "nat \<Rightarrow> string" where
  "endpointFor i = OVERPASS_ENDPOINTS ! (i mod length OVERPASS_ENDPOINTS)"

text \<open>
  A request that ends in the \<^verbatim>\<open>catch\<close> block: aborted after 12 seconds, rejected,
  answered with a status outside 200-299, or answered with a body that is not JSON.
\<close>

fun failing :: "nat \<times> reply \<Rightarrow> bool" where
  "failing (ms, Rejected) = True"
| "failing (ms, Response status None) = True"
| "failing (ms, Response status (Some j)) = (12000 \<le> ms \<or> \<not> ok status)"

text \<open>The network-call counter: the requests in a trace.\<close>

fun isFetch :: "event \<Rightarrow> bool" where
  "isFetch (Fetch e q) = True"
| "isFetch (Sleep ms) = False"

definition fetchCount :: "event list \<Rightarrow> nat" where
  "fetchCount tr = length (filter isFetch tr)"

text \<open>
  Two properties of a cache that every call keeps: no stored sequence is longer than 50,
  and no stored place has an empty name.
\<close>

definition cacheBounded :: "world \<Rightarrow> bool" where
  "cacheBounded w = (\<forall>k c. cache w k = Some c \<longrightarrow> length (data c) \<le> 50)"





text \<open>
  Spec wording, "contains the filter as a case-insensitive substring": after lower-casing
  both, the filter occurs somewhere inside the text.
\<close>

definition containsIgnoringCase :: "string \<Rightarrow> string \<Rightarrow> bool" where
  "containsIgnoringCase s f = (\<exists>pre post. toLowerCase s = pre @ toLowerCase f @ post)"

section \<open>Sample inputs\<close>

text \<open>Concrete inputs on which the properties below are instantiated.\<close>

definition sampleOrigin :: OsmLatLng where
  "sampleOrigin = \<lparr>lat = 12, lng = 77\<rparr>"

definition sampleOptions :: options where
  "sampleOptions = \<lparr>radiusMeters = 7000, kinds = [restaurant], limit = Some 10, query = None\<rparr>"

definition emptyWorld :: world where
  "emptyWorld = \<lparr>now = 0, cache = Map.empty, trace = []\<rparr>"

text \<open>A provider that answers every request after 100 ms with status 200 and body \<open>d\<close>.\<close>

definition serving :: "json \<Rightarrow> network" where
  "serving d = (\<lambda>history endpoint q. (100, Response 200 (Some d)))"

text \<open>A provider that cannot be reached: every request is rejected after 50 ms.\<close>

definition unreachable :: network where
  "unreachable = (\<lambda>history endpoint q. (50, Rejected))"


text \<open>Two elements of a response and the places they normalise to.\<close>

definition cafeElement :: json where
  "cafeElement =
     JObj [(''type'', JStr ''node''), (''id'', JNum 1), (''lat'', JNum 12), (''lon'', JNum 77),
           (''tags'', JObj [(''name'', JStr ''Grand Cafe'')])]"

definition hospitalElement :: json where
  "hospitalElement =
     JObj [(''type'', JStr ''way''), (''id'', JNum 2),
           (''center'', JObj [(''lat'', JNum 1), (''lon'', JNum 2)]),
           (''tags'', JObj [(''name'', JStr ''City Hospital'')])]"

definition twoPlaces :: json where
  "twoPlaces = JObj [(''elements'', JArr [cafeElement, hospitalElement])]"

definition grandCafe :: OsmPlace where
  "grandCafe = \<lparr>lat = 12, lng = 77, place_id = ''node/1'', name = ''Grand Cafe'', address = [],
                 tags = JObj [(''name'', JStr ''Grand Cafe'')]\<rparr>"

definition cityHospital :: OsmPlace where
  "cityHospital = \<lparr>lat = 1, lng = 2, place_id = ''way/2'', name = ''City Hospital'', address = [],
                    tags = JObj [(''name'', JStr ''City Hospital'')]\<rparr>"

text \<open>The same world with the clock reading \<open>t\<close>: time has passed, nothing else happened.\<close>

definition atTime :: "int \<Rightarrow> world \<Rightarrow> world" where
  "atTime t w = w\<lparr>now := t\<rparr>"

text \<open>
  The world after the sample request has been answered with the two places on an empty
  cache: the clock reads 100 and the cache holds the two places, stored at 100.
\<close>

definition warmWorld :: world where
  "warmWorld =
     snd (fetchNearbyOsmPlaces intString (serving twoPlaces) sampleOrigin sampleOptions emptyWorld)"





section \<open>Basic facts\<close>

subsection \<open>The retry loop\<close>

text \<open>One attempt appends one request to the trace and leaves the cache alone; the loop is three attempts with a sleep after each failure.\<close>

lemma attemptFetch_cache [simp]: "cache (snd (attemptFetch net e q w)) = cache w"
  by (simp add: attemptFetch_def Let_def split: prod.splits)


lemma attemptFetch_now: "now w \<le> now (snd (attemptFetch net e q w))"
  by (simp add: attemptFetch_def Let_def split: prod.splits)

lemma sleep_simps [simp]:
  "cache (sleep ms w) = cache w" "trace (sleep ms w) = trace w @ [Sleep ms]"
  "now (sleep ms w) = now w + int ms"
  by (simp_all add: sleep_def)

lemma overpassFetch_unfold:
  "overpassFetch net q w =
     (case attemptFetch net (endpointFor 0) q w of
        (Inr j, w1) \<Rightarrow> (Inr j, w1)
      | (Inl e1, w1) \<Rightarrow>
          (case attemptFetch net (endpointFor 1) q (sleep 400 w1) of
             (Inr j, w2) \<Rightarrow> (Inr j, w2)
           | (Inl e2, w2) \<Rightarrow>
               (case attemptFetch net (endpointFor 2) q (sleep 800 w2) of
                  (Inr j, w3) \<Rightarrow> (Inr j, w3)
                | (Inl e3, w3) \<Rightarrow> (Inl e3, sleep 1200 w3))))"
proof -
  have stop: "overpassLoop net q 3 le w' =
      (Inl (case le of Some e \<Rightarrow> e | None \<Rightarrow> RequestFailed), w')" for le w'
    by (subst overpassLoop.simps) simp
  have step: "overpassLoop net q i le w' =
      (case attemptFetch net (endpointFor i) q w' of
         (Inr j, w1) \<Rightarrow> (Inr j, w1)
       | (Inl e, w1) \<Rightarrow> overpassLoop net q (i + 1) (Some e) (sleep (400 * (i + 1)) w1))"
    if "i < 3" for i le w'
    using that by (subst overpassLoop.simps) (simp add: endpointFor_def)
  have l2: "overpassLoop net q 2 le w' =
      (case attemptFetch net (endpointFor 2) q w' of
         (Inr j, w3) \<Rightarrow> (Inr j, w3) | (Inl e3, w3) \<Rightarrow> (Inl e3, sleep 1200 w3))" for le w'
    using step[of 2 le w'] by (simp add: stop split: prod.splits sum.splits)
  have l1: "overpassLoop net q 1 le w' =
      (case attemptFetch net (endpointFor 1) q w' of
         (Inr j, w2) \<Rightarrow> (Inr j, w2)
       | (Inl e2, w2) \<Rightarrow> overpassLoop net q 2 (Some e2) (sleep 800 w2))" for le w'
    using step[of 1 le w'] by (simp add: numeral_2_eq_2 split: prod.splits sum.splits)
  have l0: "overpassLoop net q 0 le w' =
      (case attemptFetch net (endpointFor 0) q w' of
         (Inr j, w1) \<Rightarrow> (Inr j, w1)
       | (Inl e1, w1) \<Rightarrow> overpassLoop net q 1 (Some e1) (sleep 400 w1))" for le w'
    using step[of 0 le w'] by (simp split: prod.splits sum.splits)
  show ?thesis
    by (simp only: overpassFetch_def l0 l1 l2)
qed

lemma overpassFetch_cache [simp]: "cache (snd (overpassFetch net q w)) = cache w"
proof -
  have a: "cache w' = cache w0" if "attemptFetch net e q w0 = (r, w')" for e w0 r w'
    using attemptFetch_cache[of net e q w0] that by simp
  show ?thesis
    unfolding overpassFetch_unfold
    by (auto split: prod.splits sum.splits dest!: a)
qed

lemma overpassFetch_cache_eq:
  "overpassFetch net q w = (r, w1) \<Longrightarrow> cache w1 = cache w"
  using overpassFetch_cache[of net q w] by simp

lemma overpassFetch_now: "now w \<le> now (snd (overpassFetch net q w))"
proof -
  have a: "now w0 \<le> now w'" if "attemptFetch net e q w0 = (r, w')" for e w0 r w'
    using attemptFetch_now[of w0 net e q] that by simp
  show ?thesis
    unfolding overpassFetch_unfold
    by (auto split: prod.splits sum.splits dest!: a)
qed

lemma overpassFetch_first_ok:
  assumes "net (trace w) (endpointFor 0) q = (ms, Response st (Some d))" "ms < 12000" "ok st"
  shows "overpassFetch net q w =
           (Inr d, w\<lparr>now := now w + int ms, trace := trace w @ [Fetch (endpointFor 0) q]\<rparr>)"
  unfolding overpassFetch_unfold using assms by (simp add: attemptFetch_def)



lemma fetchCount_Sleep [simp]: "fetchCount (tr @ [Sleep ms]) = fetchCount tr"
  by (simp add: fetchCount_def)


lemma attemptFetch_failing:
  assumes "failing (net (trace w) e q)"
  shows "\<exists>err w1. attemptFetch net e q w = (Inl err, w1) \<and> trace w1 = trace w @ [Fetch e q]
           \<and> now w \<le> now w1"
proof (cases "net (trace w) e q")
  case (Pair ms r)
  with assms show ?thesis
  proof (cases r)
    case Rejected
    with Pair show ?thesis
      by (simp add: attemptFetch_def Let_def)
  next
    case (Response status body)
    with Pair assms show ?thesis
      by (cases body) (auto simp: attemptFetch_def Let_def)
  qed
qed

lemma overpassFetch_exhausted:
  assumes "\<forall>h e. failing (net h e q)"
  shows "isl (fst (overpassFetch net q w))
    \<and> trace (snd (overpassFetch net q w)) =
        trace w @ [Fetch (endpointFor 0) q, Sleep 400, Fetch (endpointFor 1) q, Sleep 800,
                   Fetch (endpointFor 2) q, Sleep 1200]
    \<and> now w + 2400 \<le> now (snd (overpassFetch net q w))"
proof -
  obtain e1 w1 where a1: "attemptFetch net (endpointFor 0) q w = (Inl e1, w1)"
      "trace w1 = trace w @ [Fetch (endpointFor 0) q]" "now w \<le> now w1"
    using attemptFetch_failing[of net w "endpointFor 0" q] assms by blast
  obtain e2 w2 where a2: "attemptFetch net (endpointFor 1) q (sleep 400 w1) = (Inl e2, w2)"
      "trace w2 = trace (sleep 400 w1) @ [Fetch (endpointFor 1) q]" "now (sleep 400 w1) \<le> now w2"
    using attemptFetch_failing[of net "sleep 400 w1" "endpointFor 1" q] assms by blast
  obtain e3 w3 where a3: "attemptFetch net (endpointFor 2) q (sleep 800 w2) = (Inl e3, w3)"
      "trace w3 = trace (sleep 800 w2) @ [Fetch (endpointFor 2) q]" "now (sleep 800 w2) \<le> now w3"
    using attemptFetch_failing[of net "sleep 800 w2" "endpointFor 2" q] assms by blast
  have "overpassFetch net q w = (Inl e3, sleep 1200 w3)"
    unfolding overpassFetch_unfold by (simp only: a1 a2 a3 prod.case sum.case)
  with a1 a2 a3 show ?thesis
    by simp
qed

subsection \<open>The three paths of a call\<close>

text \<open>A call returns at once for an empty category list, returns the stored data for a fresh entry, and fetches otherwise.\<close>

lemma kindToOverpass_not_Nil: "kindToOverpass k \<noteq> []"
  by (cases k) simp_all

lemma parts_eq_Nil: "parts ks = [] \<longleftrightarrow> ks = []"
  by (cases ks) (simp_all add: parts_def kindToOverpass_not_Nil)

lemma fetch_no_kinds:
  "kinds opts = [] \<Longrightarrow> fetchNearbyOsmPlaces nts net origin opts w = (Inr [], w)"
  by (simp add: fetchNearbyOsmPlaces_def parts_def)

lemma fetch_hit:
  assumes "kinds opts \<noteq> []" "cache w (cacheKey nts origin opts) = Some c"
    "now w - at_ms c < 60000"
  shows "fetchNearbyOsmPlaces nts net origin opts w = (Inr (data c), w)"
  using assms by (simp add: fetchNearbyOsmPlaces_def parts_eq_Nil fresh_def Let_def)

lemma fetch_miss:
  assumes "kinds opts \<noteq> []" "\<not> fresh w (cacheKey nts origin opts)"
  shows "fetchNearbyOsmPlaces nts net origin opts w =
     (case overpassFetch net (queryOf nts origin opts) w of
        (Inl e, w1) \<Rightarrow> (Inl e, w1)
      | (Inr d, w1) \<Rightarrow>
          (case normalizeResponse nts (queryLower (query opts)) (clampLimit (limit opts)) d of
             Inl e \<Rightarrow> (Inl e, w1)
           | Inr result \<Rightarrow>
               (Inr result,
                w1\<lparr>cache := (cache w1)(cacheKey nts origin opts \<mapsto>
                       \<lparr>at_ms = now w1, data = result\<rparr>)\<rparr>)))"
  using assms by (simp add: fetchNearbyOsmPlaces_def parts_eq_Nil queryOf_def Let_def)



lemma fetch_served:
  assumes "kinds opts \<noteq> []"
    and "\<not> fresh w (cacheKey nts origin opts)"
    and "net (trace w) (endpointFor 0) (queryOf nts origin opts) = (ms, Response st (Some d))"
    and "ms < 12000" and "ok st"
    and "normalizeResponse nts (queryLower (query opts)) (clampLimit (limit opts)) d = Inr r"
  shows "fetchNearbyOsmPlaces nts net origin opts w =
           (Inr r,
            w\<lparr>now := now w + int ms,
              cache := (cache w)(cacheKey nts origin opts \<mapsto> \<lparr>at_ms = now w + int ms, data = r\<rparr>),
              trace := trace w @ [Fetch (endpointFor 0) (queryOf nts origin opts)]\<rparr>)"
  using assms by (simp add: fetch_miss overpassFetch_first_ok)

lemma fetch_result_cases:
  assumes "fetchNearbyOsmPlaces nts net origin opts w = (Inr ps, w')"
  obtains (empty) "kinds opts = []" "ps = []" "w' = w"
  | (hit) c where "kinds opts \<noteq> []" "cache w (cacheKey nts origin opts) = Some c"
      "now w - at_ms c < 60000" "ps = data c" "w' = w"
  | (miss) d w1 where "kinds opts \<noteq> []" "\<not> fresh w (cacheKey nts origin opts)"
      "overpassFetch net (queryOf nts origin opts) w = (Inr d, w1)"
      "normalizeResponse nts (queryLower (query opts)) (clampLimit (limit opts)) d = Inr ps"
      "w' = w1\<lparr>cache := (cache w1)(cacheKey nts origin opts \<mapsto> \<lparr>at_ms = now w1, data = ps\<rparr>)\<rparr>"
proof (cases "kinds opts = []")
  case True
  with assms show ?thesis by (auto simp: fetch_no_kinds intro: empty)
next
  case nonempty: False
  show ?thesis
  proof (cases "fresh w (cacheKey nts origin opts)")
    case True
    then obtain c where c: "cache w (cacheKey nts origin opts) = Some c" "now w - at_ms c < 60000"
      by (auto simp: fresh_def split: option.splits)
    with assms nonempty show ?thesis
      by (auto simp: fetch_hit intro: hit)
  next
    case False
    with assms nonempty show ?thesis
      unfolding fetch_miss[OF nonempty False]
      by (auto split: prod.splits sum.splits intro: miss)
  qed
qed

lemma fetch_error_cache:
  assumes "fetchNearbyOsmPlaces nts net origin opts w = (Inl e, w')"
  shows "cache w' = cache w"
proof (cases "kinds opts \<noteq> [] \<and> \<not> fresh w (cacheKey nts origin opts)")
  case True
  then have k: "kinds opts \<noteq> []" and m: "\<not> fresh w (cacheKey nts origin opts)" by simp_all
  from assms show ?thesis
    unfolding fetch_miss[OF k m]
    by (auto split: prod.splits sum.splits dest: overpassFetch_cache_eq)
next
  case False
  with assms show ?thesis
    by (cases "kinds opts = []")
       (auto simp: fetch_no_kinds fetchNearbyOsmPlaces_def parts_eq_Nil Let_def)
qed

lemma fetch_result_cached:
  assumes "kinds opts \<noteq> []" "fetchNearbyOsmPlaces nts net origin opts w = (Inr r, w1)"
  shows "\<exists>c. cache w1 (cacheKey nts origin opts) = Some c \<and> data c = r
             \<and> (\<not> fresh w (cacheKey nts origin opts) \<longrightarrow> at_ms c = now w1)"
  using assms(2)
proof (cases rule: fetch_result_cases)
  case empty
  with assms(1) show ?thesis by simp
next
  case (hit c)
  then show ?thesis by (auto simp: fresh_def)
next
  case (miss d w0)
  then show ?thesis by simp
qed


subsection \<open>The limit\<close>

lemma clampLimit_range: "1 \<le> clampLimit l \<and> clampLimit l \<le> 50"
  by (simp add: clampLimit_def)

lemma length_slice0: "0 \<le> lmt \<Longrightarrow> of_nat (length (slice0 lmt xs)) \<le> lmt"
proof -
  assume "0 \<le> lmt"
  have "length (slice0 lmt xs) \<le> nat \<lfloor>lmt\<rfloor>"
    by (simp add: slice0_def)
  then have "(of_nat (length (slice0 lmt xs)) :: rat) \<le> of_nat (nat \<lfloor>lmt\<rfloor>)"
    by (simp only: of_nat_le_iff)
  also have "\<dots> = of_int \<lfloor>lmt\<rfloor>"
    using \<open>0 \<le> lmt\<close> by simp
  also have "\<dots> \<le> lmt"
    by simp
  finally show ?thesis .
qed

lemma normalizeResponse_length:
  assumes "normalizeResponse nts ql lmt d = Inr ps" "0 \<le> lmt"
  shows "of_nat (length ps) \<le> lmt"
  using assms by (auto simp: normalizeResponse_def length_slice0 split: if_splits sum.splits)

lemma fetch_miss_length:
  assumes "\<not> (kinds opts \<noteq> [] \<and> fresh w (cacheKey nts origin opts))"
    and "fetchNearbyOsmPlaces nts net origin opts w = (Inr ps, w')"
  shows "of_nat (length ps) \<le> clampLimit (limit opts)"
proof (cases "kinds opts = []")
  case True
  with assms(2) have "ps = []" by (simp add: fetch_no_kinds)
  then show ?thesis using clampLimit_range[of "limit opts"] by simp
next
  case False
  with assms(1) have m: "\<not> fresh w (cacheKey nts origin opts)" by simp
  have "0 \<le> clampLimit (limit opts)" using clampLimit_range[of "limit opts"] by simp
  with assms(2) show ?thesis
    unfolding fetch_miss[OF False m]
    by (auto split: prod.splits sum.splits dest: normalizeResponse_length)
qed

lemma cacheBounded_fetch:
  assumes "cacheBounded w" "fetchNearbyOsmPlaces nts net origin opts w = (r, w')"
  shows "cacheBounded w' \<and> (\<forall>ps. r = Inr ps \<longrightarrow> length ps \<le> 50)"
proof (cases r)
  case (Inl e)
  with assms show ?thesis
    by (auto simp: cacheBounded_def dest!: fetch_error_cache)
next
  case (Inr ps)
  with assms(2) have f: "fetchNearbyOsmPlaces nts net origin opts w = (Inr ps, w')" by simp
  from f show ?thesis
  proof (cases rule: fetch_result_cases)
    case empty
    with assms(1) Inr show ?thesis by simp
  next
    case (hit c)
    with assms(1) Inr show ?thesis by (auto simp: cacheBounded_def)
  next
    case (miss d w1)
    have "(of_nat (length ps) :: rat) \<le> clampLimit (limit opts)"
      using miss(4) clampLimit_range[of "limit opts"] by (auto dest: normalizeResponse_length)
    then have "(of_nat (length ps) :: rat) \<le> of_nat 50"
      using clampLimit_range[of "limit opts"] by simp
    then have len: "length ps \<le> 50"
      by (simp only: of_nat_le_iff)
    have "cache w1 = cache w"
      using miss(3) by (rule overpassFetch_cache_eq)
    with assms(1) len miss(5) Inr show ?thesis
      by (auto simp: cacheBounded_def)
  qed
qed

subsection \<open>The fingerprint\<close>

text \<open>Category names have no comma, so the joined list determines the list.\<close>

lemma cacheKey_limit [simp]: "cacheKey nts origin (opts\<lparr>limit := l\<rparr>) = cacheKey nts origin opts"
  by (simp add: cacheKey_def)

lemma cacheKey_cong:
  assumes "toFixed 5 (lat o2) = toFixed 5 (lat o1)" "toFixed 5 (lng o2) = toFixed 5 (lng o1)"
    "clampRadius (radiusMeters p2) = clampRadius (radiusMeters p1)"
    "kinds p2 = kinds p1" "queryLower (query p2) = queryLower (query p1)"
  shows "cacheKey nts o2 p2 = cacheKey nts o1 p1"
  using assms by (simp add: cacheKey_def)

lemma kindName_no_comma: "CHR '','' \<notin> set (kindName k)"
  by (cases k) simp_all

lemma kindName_not_Nil: "kindName k \<noteq> []"
  by (cases k) simp_all

lemma kindName_inj: "kindName a = kindName b \<Longrightarrow> a = b"
  by (cases a; cases b) simp_all

lemma join_Cons: "join sep (x # xs) = (if xs = [] then x else x @ sep @ join sep xs)"
  by (cases xs) simp_all

lemma join_names_head:
  "takeWhile (\<lambda>a. a \<noteq> CHR '','') (join '','' (map kindName (k # ks))) = kindName k"
proof -
  have "takeWhile (\<lambda>a. a \<noteq> CHR '','') (kindName k @ r)
      = kindName k @ takeWhile (\<lambda>a. a \<noteq> CHR '','') r" for r
    using kindName_no_comma[of k] by (intro takeWhile_append2) auto
  from this[of "[]"] this[of "'','' @ join '','' (map kindName ks)"] show ?thesis
    by (simp add: join_Cons)
qed

lemma join_names_inj:
  "join '','' (map kindName ks) = join '','' (map kindName ks') \<Longrightarrow> ks = ks'"
proof (induction ks arbitrary: ks')
  case Nil
  then show ?case
    by (cases ks') (auto simp: join_Cons kindName_not_Nil kindName_not_Nil[THEN not_sym] split: if_splits)
next
  case (Cons k ks)
  show ?case
  proof (cases ks')
    case Nil
    with Cons.prems show ?thesis
      by (auto simp: join_Cons kindName_not_Nil kindName_not_Nil[THEN not_sym] split: if_splits)
  next
    case (Cons k' r')
    from Cons.prems have "kindName k = kindName k'"
      unfolding Cons using join_names_head[of k ks] join_names_head[of k' r'] by simp
    then have k: "k = k'" by (rule kindName_inj)
    with Cons.prems have "join '','' (map kindName ks) = join '','' (map kindName r')"
      unfolding Cons by (auto simp: join_Cons kindName_not_Nil kindName_not_Nil[THEN not_sym] split: if_splits)
    then have "ks = r'" by (rule Cons.IH)
    with k show ?thesis unfolding Cons by simp
  qed
qed

lemma cacheKey_eq_iff:
  assumes "toFixed 5 (lat o1) = toFixed 5 (lat o2)" "toFixed 5 (lng o1) = toFixed 5 (lng o2)"
    "clampRadius (radiusMeters p1) = clampRadius (radiusMeters p2)"
    "queryLower (query p1) = queryLower (query p2)"
  shows "cacheKey nts o1 p1 = cacheKey nts o2 p2 \<longleftrightarrow> kinds p1 = kinds p2"
proof
  assume "cacheKey nts o1 p1 = cacheKey nts o2 p2"
  with assms have "join '','' (map kindName (kinds p1)) @ (''|'' @ queryLower (query p2))
      = join '','' (map kindName (kinds p2)) @ (''|'' @ queryLower (query p2))"
    by (simp add: cacheKey_def)
  then have "join '','' (map kindName (kinds p1)) = join '','' (map kindName (kinds p2))"
    by (simp only: append_same_eq)
  then show "kinds p1 = kinds p2" by (rule join_names_inj)
next
  assume "kinds p1 = kinds p2"
  with assms show "cacheKey nts o1 p1 = cacheKey nts o2 p2"
    by (simp add: cacheKey_def)
qed

subsection \<open>Normalisation\<close>

lemma normalizeResponse_no_elements:
  assumes "d \<noteq> JNull" "\<forall>els. getProp d ''elements'' \<noteq> Some (JArr els)"
  shows "normalizeResponse nts ql lmt d = Inr []"
proof -
  have "elementsOf d = []"
    using assms(2) by (auto simp: elementsOf_def split: option.splits json.splits)
  then show ?thesis using assms(1) by (simp add: normalizeResponse_def slice0_def filtered_def)
qed

lemma normalizeResponse_empty_object [simp]:
  "normalizeResponse nts ql lmt (JObj []) = Inr []"
  by (simp add: normalizeResponse_no_elements)












subsection \<open>The text filter\<close>

text \<open>The test the code runs is the substring relation.\<close>

lemma queryLower_None [simp]: "queryLower None = []"
  by (simp add: queryLower_def trim_def toLowerCase_def)

lemma str_includes_iff: "str_includes s t \<longleftrightarrow> (\<exists>pre post. s = pre @ t @ post)"
proof (induction s)
  case Nil
  then show ?case by simp
next
  case (Cons c s)
  show ?case
  proof
    assume "str_includes (c # s) t"
    then consider "prefix t (c # s)" | "str_includes s t" by auto
    then show "\<exists>pre post. c # s = pre @ t @ post"
    proof cases
      case 1
      then obtain post where "c # s = t @ post" by (auto simp: prefix_def)
      then have "c # s = [] @ t @ post" by simp
      then show ?thesis by blast
    next
      case 2
      with Cons.IH obtain pre post where "s = pre @ t @ post" by blast
      then have "c # s = (c # pre) @ t @ post" by simp
      then show ?thesis by blast
    qed
  next
    assume "\<exists>pre post. c # s = pre @ t @ post"
    then obtain pre post where e: "c # s = pre @ t @ post" by blast
    show "str_includes (c # s) t"
    proof (cases pre)
      case Nil
      with e have "prefix t (c # s)" by (simp add: prefix_def)
      then show ?thesis by simp
    next
      case (Cons a pre')
      with e have "s = pre' @ t @ post" by simp
      with Cons.IH have "str_includes s t" by blast
      then show ?thesis by simp
    qed
  qed
qed

lemma containsIgnoringCase_includes:
  "containsIgnoringCase s f \<longleftrightarrow> str_includes (toLowerCase s) (toLowerCase f)"
  by (simp add: containsIgnoringCase_def str_includes_iff)

lemma matches_queryLower:
  "matches (queryLower (Some f)) p \<longleftrightarrow>
     containsIgnoringCase (name p) (trim f) \<or> containsIgnoringCase (address p) (trim f)"
  by (simp add: matches_def queryLower_def containsIgnoringCase_includes)

subsection \<open>The sample inputs, evaluated\<close>

lemma intString_1 [simp]: "intString 1 = ''1''"
  by (simp add: intString_def digits.simps digit_def)

lemma intString_2 [simp]: "intString 2 = ''2''"
  by (simp add: intString_def digits.simps digit_def)

lemma intString_3 [simp]: "intString 3 = ''3''"
  by (simp add: intString_def digits.simps digit_def)

lemma digits_1200000: "digits 1200000 = ''1200000''"
  by (simp add: digits.simps digit_def)

lemma toFixed_12: "toFixed 5 12 = ''12.00000''"
proof -
  have "\<lfloor>\<bar>12 :: rat\<bar> * 10 ^ 5 + 1 / 2\<rfloor> = 1200000"
    by (rule floor_unique) simp_all
  then show ?thesis
    by (simp add: toFixed_def Let_def digits_1200000)
qed

lemma toFixed_12_000001: "toFixed 5 (12000001 / 1000000) = ''12.00000''"
proof -
  have "\<lfloor>\<bar>12000001 / 1000000 :: rat\<bar> * 10 ^ 5 + 1 / 2\<rfloor> = 1200000"
    by (rule floor_unique) simp_all
  then show ?thesis
    by (simp add: toFixed_def Let_def digits_1200000)
qed

lemma trim_Grand_Cafe: "trim ''Grand Cafe'' = ''Grand Cafe''"
  by (simp add: trim_def isWhite_def)

lemma trim_CAFE: "trim '' CAFE '' = ''CAFE''"
  by (simp add: trim_def isWhite_def)

lemma lower_Grand_Cafe: "toLowerCase ''Grand Cafe'' = ''grand cafe''"
  by code_simp

lemma lower_City_Hospital: "toLowerCase ''City Hospital'' = ''city hospital''"
  by code_simp

lemma lower_CAFE: "toLowerCase ''CAFE'' = ''cafe''"
  by code_simp

lemma normalize_cafeElement: "normalizeElement intString cafeElement = Inr (Some grandCafe)"
  by (simp add: normalizeElement_def cafeElement_def grandCafe_def tagsOf_def latOf_def lngOf_def
      rawName_def nameCandidate_def orElse_def addressOf_def addressParts_def idOf_def
      trim_def isWhite_def)

lemma normalize_hospitalElement:
  "normalizeElement intString hospitalElement = Inr (Some cityHospital)"
  by (simp add: normalizeElement_def hospitalElement_def cityHospital_def tagsOf_def latOf_def
      lngOf_def rawName_def nameCandidate_def orElse_def addressOf_def addressParts_def idOf_def
      trim_def isWhite_def)

lemma mapped_twoPlaces: "mapped intString (elementsOf twoPlaces) = Inr [grandCafe, cityHospital]"
  by (simp add: twoPlaces_def elementsOf_def normalize_cafeElement normalize_hospitalElement)

lemma twoPlaces_not_null: "twoPlaces \<noteq> JNull"
  by (simp add: twoPlaces_def)

lemma normalizeResponse_twoPlaces_2:
  "normalizeResponse intString [] (clampLimit (Some 2)) twoPlaces = Inr [grandCafe, cityHospital]"
  by (simp add: normalizeResponse_def mapped_twoPlaces filtered_def slice0_def clampLimit_def
      twoPlaces_not_null)

lemma normalizeResponse_twoPlaces_1:
  "normalizeResponse intString [] (clampLimit (Some 1)) twoPlaces = Inr [grandCafe]"
  by (simp add: normalizeResponse_def mapped_twoPlaces filtered_def slice0_def clampLimit_def
      twoPlaces_not_null)

lemma normalizeResponse_twoPlaces_10:
  "normalizeResponse intString [] (clampLimit (Some 10)) twoPlaces = Inr [grandCafe, cityHospital]"
  by (simp add: normalizeResponse_def mapped_twoPlaces filtered_def slice0_def clampLimit_def
      twoPlaces_not_null)





lemma kinds_sampleOptions [simp]: "kinds sampleOptions = [restaurant]"
  by (simp add: sampleOptions_def)

lemma sampleOptions_limit [simp]: "sampleOptions\<lparr>limit := Some 10\<rparr> = sampleOptions"
  by (simp add: sampleOptions_def)

lemma emptyWorld_not_fresh: "\<not> fresh emptyWorld key"
  by (simp add: fresh_def emptyWorld_def)


lemma sample_first_call:
  assumes "normalizeResponse intString [] (clampLimit l) d = Inr r"
  shows "fetchNearbyOsmPlaces intString (serving d) sampleOrigin (sampleOptions\<lparr>limit := l\<rparr>) emptyWorld =
     (Inr r,
      \<lparr>now = 100,
       cache = [cacheKey intString sampleOrigin sampleOptions \<mapsto> \<lparr>at_ms = 100, data = r\<rparr>],
       trace = [Fetch (endpointFor 0) (queryOf intString sampleOrigin (sampleOptions\<lparr>limit := l\<rparr>))]\<rparr>)"
proof -
  have "fetchNearbyOsmPlaces intString (serving d) sampleOrigin (sampleOptions\<lparr>limit := l\<rparr>) emptyWorld =
     (Inr r,
      emptyWorld\<lparr>now := now emptyWorld + int 100,
        cache := (cache emptyWorld)(cacheKey intString sampleOrigin (sampleOptions\<lparr>limit := l\<rparr>) \<mapsto>
                   \<lparr>at_ms = now emptyWorld + int 100, data = r\<rparr>),
        trace := trace emptyWorld
          @ [Fetch (endpointFor 0) (queryOf intString sampleOrigin (sampleOptions\<lparr>limit := l\<rparr>))]\<rparr>)"
  proof (rule fetch_served [where st = 200 and ms = 100 and d = d])
    show "kinds (sampleOptions\<lparr>limit := l\<rparr>) \<noteq> []"
      by (simp add: sampleOptions_def)
    show "normalizeResponse intString (queryLower (query (sampleOptions\<lparr>limit := l\<rparr>)))
            (clampLimit (limit (sampleOptions\<lparr>limit := l\<rparr>))) d = Inr r"
      using assms by (simp add: sampleOptions_def)
  qed (simp_all add: emptyWorld_not_fresh serving_def ok_def)
  then show ?thesis by (simp add: emptyWorld_def)
qed

lemma first_sample_call:
  "fetchNearbyOsmPlaces intString (serving twoPlaces) sampleOrigin sampleOptions emptyWorld
     = (Inr [grandCafe, cityHospital],
        \<lparr>now = 100,
         cache = [cacheKey intString sampleOrigin sampleOptions \<mapsto>
                    \<lparr>at_ms = 100, data = [grandCafe, cityHospital]\<rparr>],
         trace = [Fetch (endpointFor 0) (queryOf intString sampleOrigin sampleOptions)]\<rparr>)"
  using sample_first_call [OF normalizeResponse_twoPlaces_10] by simp

lemma atTime_simps [simp]:
  "now (atTime t w) = t" "cache (atTime t w) = cache w" "trace (atTime t w) = trace w"
  by (simp_all add: atTime_def)

lemma warmWorld_eq:
  "warmWorld =
     \<lparr>now = 100,
      cache = [cacheKey intString sampleOrigin sampleOptions \<mapsto>
                 \<lparr>at_ms = 100, data = [grandCafe, cityHospital]\<rparr>],
      trace = [Fetch (endpointFor 0) (queryOf intString sampleOrigin sampleOptions)]\<rparr>"
  by (simp add: warmWorld_def first_sample_call)

lemma first_sample_call_warm:
  "fetchNearbyOsmPlaces intString (serving twoPlaces) sampleOrigin sampleOptions emptyWorld
     = (Inr [grandCafe, cityHospital], warmWorld)"
  by (simp add: warmWorld_eq first_sample_call)

lemma warmWorld_simps [simp]:
  "now warmWorld = 100"
  "trace warmWorld = [Fetch (endpointFor 0) (queryOf intString sampleOrigin sampleOptions)]"
  "cache warmWorld (cacheKey intString sampleOrigin sampleOptions)
     = Some \<lparr>at_ms = 100, data = [grandCafe, cityHospital]\<rparr>"
  by (simp_all add: warmWorld_eq)

lemma stale_sample_call:
  assumes "60100 \<le> t"
  shows "fetchNearbyOsmPlaces intString (serving (JObj [])) sampleOrigin sampleOptions
           (atTime t warmWorld)
     = (Inr [],
        \<lparr>now = t + 100,
         cache = [cacheKey intString sampleOrigin sampleOptions \<mapsto> \<lparr>at_ms = t + 100, data = []\<rparr>],
         trace = [Fetch (endpointFor 0) (queryOf intString sampleOrigin sampleOptions),
                  Fetch (endpointFor 0) (queryOf intString sampleOrigin sampleOptions)]\<rparr>)"
proof -
  have "fetchNearbyOsmPlaces intString (serving (JObj [])) sampleOrigin sampleOptions
           (atTime t warmWorld)
     = (Inr [],
        (atTime t warmWorld)\<lparr>now := now (atTime t warmWorld) + int 100,
          cache := (cache (atTime t warmWorld))(cacheKey intString sampleOrigin sampleOptions \<mapsto>
                     \<lparr>at_ms = now (atTime t warmWorld) + int 100, data = []\<rparr>),
          trace := trace (atTime t warmWorld)
            @ [Fetch (endpointFor 0) (queryOf intString sampleOrigin sampleOptions)]\<rparr>)"
    using assms
    by (intro fetch_served [where st = 200 and d = "JObj []"])
       (simp_all add: fresh_def serving_def ok_def)
  then show ?thesis
    by (simp add: atTime_def warmWorld_eq)
qed

section \<open>C1: the limit\<close>

text \<open>
  C1, as stated, fails: the result of a call served from the cache can be longer than the
  call's own clamped limit.  Two calls for the same place, the first with limit 2 and the
  second, right after it, with limit 1: the second returns the two places the first stored.
\<close>

theorem cached_result_exceeds_limit:
  "fst (fetchNearbyOsmPlaces intString (serving twoPlaces) sampleOrigin
          (sampleOptions\<lparr>limit := Some 1\<rparr>)
          (snd (fetchNearbyOsmPlaces intString (serving twoPlaces) sampleOrigin
                  (sampleOptions\<lparr>limit := Some 2\<rparr>) emptyWorld)))
     = Inr [grandCafe, cityHospital]
   \<and> clampLimit (limit (sampleOptions\<lparr>limit := Some 1\<rparr>)) = 1"
proof -
  have "fetchNearbyOsmPlaces intString (serving twoPlaces) sampleOrigin
          (sampleOptions\<lparr>limit := Some 1\<rparr>)
          \<lparr>now = 100,
           cache = [cacheKey intString sampleOrigin sampleOptions \<mapsto>
                      \<lparr>at_ms = 100, data = [grandCafe, cityHospital]\<rparr>],
           trace = [Fetch (endpointFor 0)
                      (queryOf intString sampleOrigin (sampleOptions\<lparr>limit := Some 2\<rparr>))]\<rparr>
        = (Inr (data \<lparr>at_ms = 100, data = [grandCafe, cityHospital]\<rparr>),
           \<lparr>now = 100,
            cache = [cacheKey intString sampleOrigin sampleOptions \<mapsto>
                       \<lparr>at_ms = 100, data = [grandCafe, cityHospital]\<rparr>],
            trace = [Fetch (endpointFor 0)
                       (queryOf intString sampleOrigin (sampleOptions\<lparr>limit := Some 2\<rparr>))]\<rparr>)"
  proof (rule fetch_hit)
    show "kinds (sampleOptions\<lparr>limit := Some 1\<rparr>) \<noteq> []"
      by (simp add: sampleOptions_def)
  qed simp_all
  then show ?thesis
    by (simp add: sample_first_call [OF normalizeResponse_twoPlaces_2] clampLimit_def)
qed

text \<open>
  C1, amended.  The limit is clamped into [1, 50] whatever the caller passes.  A call that
  is not served from the cache returns at most its clamped limit of entries.  A call
  served from the cache returns the stored sequence, which the call that stored it cut to
  its own clamped limit: when no stored sequence is longer than 50, no returned sequence
  is, and the cache keeps that property.
\<close>

theorem limit_clamped_fetch_bounded:
  "(1 \<le> clampLimit l \<and> clampLimit l \<le> 50)
   \<and> (\<not> (kinds opts \<noteq> [] \<and> fresh w (cacheKey nts origin opts))
        \<longrightarrow> fetchNearbyOsmPlaces nts net origin opts w = (Inr ps, w')
        \<longrightarrow> of_nat (length ps) \<le> clampLimit (limit opts))
   \<and> (cacheBounded w
        \<longrightarrow> fetchNearbyOsmPlaces nts net origin opts w = (Inr ps, w')
        \<longrightarrow> length ps \<le> 50 \<and> cacheBounded w')"
  using clampLimit_range[of l] fetch_miss_length[of opts w nts origin net ps w']
    cacheBounded_fetch[of w nts net origin opts "Inr ps" w']
  by blast

text \<open>
  An out-of-range limit of 100 is clamped to 50; the sample request with limit 1, on an
  empty cache and a provider with two places, returns one place.
\<close>

theorem limit_clamped_fetch_bounded_witness:
  "clampLimit (Some 100) = 50
   \<and> cacheBounded emptyWorld
   \<and> fst (fetchNearbyOsmPlaces intString (serving twoPlaces) sampleOrigin
            (sampleOptions\<lparr>limit := Some 1\<rparr>) emptyWorld) = Inr [grandCafe]
   \<and> rat_of_nat (length [grandCafe]) \<le> clampLimit (limit (sampleOptions\<lparr>limit := Some 1\<rparr>))
   \<and> cacheBounded (snd (fetchNearbyOsmPlaces intString (serving twoPlaces) sampleOrigin
                          (sampleOptions\<lparr>limit := Some 1\<rparr>) emptyWorld))"
proof -
  let ?opts = "sampleOptions\<lparr>limit := Some 1\<rparr>"
  let ?call = "fetchNearbyOsmPlaces intString (serving twoPlaces) sampleOrigin ?opts emptyWorld"
  have miss: "\<not> (kinds ?opts \<noteq> [] \<and> fresh emptyWorld (cacheKey intString sampleOrigin ?opts))"
    by (simp add: emptyWorld_not_fresh)
  have r1: "fst ?call = Inr [grandCafe]"
    by (simp add: sample_first_call [OF normalizeResponse_twoPlaces_1])
  then have res: "?call = (Inr [grandCafe], snd ?call)"
    by (simp add: prod_eq_iff)
  have inv: "cacheBounded emptyWorld"
    by (simp add: cacheBounded_def emptyWorld_def)
  have c: "clampLimit (Some 100) = 50"
    by (simp add: clampLimit_def)
  note t = limit_clamped_fetch_bounded [of "Some 100" ?opts emptyWorld intString sampleOrigin
      "serving twoPlaces" "[grandCafe]" "snd ?call"]
  from t miss res have b: "rat_of_nat (length [grandCafe]) \<le> clampLimit (limit ?opts)"
    by blast
  from t inv res have i: "cacheBounded (snd ?call)"
    by blast
  from c inv r1 b i show ?thesis
    by (intro conjI)
qed

section \<open>C2: the cache fingerprint\<close>

text \<open>
  C2, as stated, fails: the category list enters the fingerprint in the order given, it is
  not sorted.  The same two categories in the two orders give two fingerprints.
\<close>

theorem cache_key_category_order:
  "set [restaurant, hospital] = set [hospital, restaurant]
   \<and> cacheKey intString sampleOrigin (sampleOptions\<lparr>kinds := [restaurant, hospital]\<rparr>)
       \<noteq> cacheKey intString sampleOrigin (sampleOptions\<lparr>kinds := [hospital, restaurant]\<rparr>)"
proof -
  have "cacheKey intString sampleOrigin (sampleOptions\<lparr>kinds := [restaurant, hospital]\<rparr>)
        = cacheKey intString sampleOrigin (sampleOptions\<lparr>kinds := [hospital, restaurant]\<rparr>)
      \<longleftrightarrow> kinds (sampleOptions\<lparr>kinds := [restaurant, hospital]\<rparr>)
          = kinds (sampleOptions\<lparr>kinds := [hospital, restaurant]\<rparr>)"
    by (rule cacheKey_eq_iff) simp_all
  then show ?thesis
    by auto
qed

text \<open>
  C2, amended.  The fingerprint is the concatenation of the origin latitude and longitude,
  each printed with 5 decimal places, the clamped radius, the category list in the order
  given, and the lower-cased trimmed text filter (separated by a comma and by bars).
  Two requests that agree on the printed latitude and longitude, on the clamped radius and
  on the lower-cased trimmed filter have the same fingerprint exactly when their category
  lists are equal as lists, order included.
\<close>

theorem cache_key_by_components:
  "cacheKey nts o1 p1 =
     toFixed 5 (lat o1) @ '','' @ toFixed 5 (lng o1) @ ''|''
     @ nts (clampRadius (radiusMeters p1)) @ ''|''
     @ join '','' (map kindName (kinds p1)) @ ''|''
     @ toLowerCase (trim (case query p1 of None \<Rightarrow> [] | Some s \<Rightarrow> s))
   \<and> (toFixed 5 (lat o1) = toFixed 5 (lat o2) \<longrightarrow>
        toFixed 5 (lng o1) = toFixed 5 (lng o2) \<longrightarrow>
        clampRadius (radiusMeters p1) = clampRadius (radiusMeters p2) \<longrightarrow>
        queryLower (query p1) = queryLower (query p2) \<longrightarrow>
        (cacheKey nts o1 p1 = cacheKey nts o2 p2 \<longleftrightarrow> kinds p1 = kinds p2))"
  using cacheKey_eq_iff[of o1 o2 p1 p2 nts]
  by (simp add: cacheKey_def queryLower_def)

text \<open>
  Two requests with the same fingerprint: latitudes 12 and 12.000001, radii 60000 and 50000
  (both clamped to 50000), no filter and a filter of two spaces, limits 10 and 3.
\<close>

theorem cache_key_by_components_witness:
  "cacheKey intString sampleOrigin (sampleOptions\<lparr>radiusMeters := 60000\<rparr>)
     = cacheKey intString \<lparr>lat = 12000001 / 1000000, lng = 77\<rparr>
         \<lparr>radiusMeters = 50000, kinds = [restaurant], limit = Some 3, query = Some ''  ''\<rparr>"
proof -
  let ?o2 = "\<lparr>lat = 12000001 / 1000000, lng = 77\<rparr> :: OsmLatLng"
  let ?p1 = "sampleOptions\<lparr>radiusMeters := 60000\<rparr>"
  let ?p2 = "\<lparr>radiusMeters = 50000, kinds = [restaurant], limit = Some 3, query = Some ''  ''\<rparr>"
  have la: "toFixed 5 (lat sampleOrigin) = toFixed 5 (lat ?o2)"
    by (simp add: sampleOrigin_def toFixed_12 toFixed_12_000001)
  have lo: "toFixed 5 (lng sampleOrigin) = toFixed 5 (lng ?o2)"
    by (simp add: sampleOrigin_def)
  have r: "clampRadius (radiusMeters ?p1) = clampRadius (radiusMeters ?p2)"
    by (simp add: clampRadius_def)
  have q: "queryLower (query ?p1) = queryLower (query ?p2)"
    by (simp add: sampleOptions_def queryLower_def trim_def isWhite_def toLowerCase_def)
  have k: "kinds ?p1 = kinds ?p2"
    by (simp add: sampleOptions_def)
  from cache_key_by_components [of intString sampleOrigin ?p1 ?o2 ?p2] la lo r q k
  show ?thesis
    by blast
qed

section \<open>C3: the limit is not part of the fingerprint\<close>

text \<open>
  C3.  Take a first call that is not served from the cache and resolves with \<open>r1\<close>, and a
  second request that agrees with the first on the printed origin, the clamped radius, the
  category list and the lower-cased trimmed filter; its limit is arbitrary.  The two
  requests have the same fingerprint, and when the second call runs less than 60 seconds
  after the first has stored its result (the entry still being in the cache), it returns
  \<open>r1\<close> unchanged and leaves the world as it is.  \<open>r1\<close> was cut to the first
  call's limit.
\<close>

theorem limit_not_in_fingerprint:
  assumes "kinds opts \<noteq> []"
    and "\<not> fresh w (cacheKey nts origin opts)"
    and "fetchNearbyOsmPlaces nts net origin opts w = (Inr r1, w1)"
    and "toFixed 5 (lat origin') = toFixed 5 (lat origin)"
    and "toFixed 5 (lng origin') = toFixed 5 (lng origin)"
    and "clampRadius (radiusMeters opts') = clampRadius (radiusMeters opts)"
    and "kinds opts' = kinds opts"
    and "queryLower (query opts') = queryLower (query opts)"
    and "cache w2 (cacheKey nts origin opts) = cache w1 (cacheKey nts origin opts)"
    and "now w2 - now w1 < 60000"
  shows "cacheKey nts origin' opts' = cacheKey nts origin opts
         \<and> fetchNearbyOsmPlaces nts net' origin' opts' w2 = (Inr r1, w2)
         \<and> of_nat (length r1) \<le> clampLimit (limit opts)"
proof -
  have key: "cacheKey nts origin' opts' = cacheKey nts origin opts"
    using assms(4-8) by (rule cacheKey_cong)
  from fetch_result_cached[OF assms(1,3)] assms(2)
  obtain c where c: "cache w1 (cacheKey nts origin opts) = Some c" "data c = r1" "at_ms c = now w1"
    by auto
  have "fetchNearbyOsmPlaces nts net' origin' opts' w2 = (Inr (data c), w2)"
    using assms(1,7,9,10) c key by (intro fetch_hit) simp_all
  moreover have "of_nat (length r1) \<le> clampLimit (limit opts)"
    using assms(2,3) by (intro fetch_miss_length) auto
  ultimately show ?thesis
    using key c(2) by simp
qed

text \<open>
  The sample request with limit 10 stored two places at time 100; at time 59000 the same
  request with limit 1 gets both, from a provider that cannot be reached.
\<close>

theorem limit_not_in_fingerprint_witness:
  "fetchNearbyOsmPlaces intString unreachable sampleOrigin (sampleOptions\<lparr>limit := Some 1\<rparr>)
       (atTime 59000 warmWorld)
     = (Inr [grandCafe, cityHospital], atTime 59000 warmWorld)"
proof -
  let ?o2 = "sampleOptions\<lparr>limit := Some 1\<rparr>"
  have "cacheKey intString sampleOrigin ?o2 = cacheKey intString sampleOrigin sampleOptions
      \<and> fetchNearbyOsmPlaces intString unreachable sampleOrigin ?o2 (atTime 59000 warmWorld)
          = (Inr [grandCafe, cityHospital], atTime 59000 warmWorld)
      \<and> of_nat (length [grandCafe, cityHospital]) \<le> clampLimit (limit sampleOptions)"
    by (rule limit_not_in_fingerprint [OF _ _ first_sample_call_warm])
       (simp_all add: emptyWorld_not_fresh)
  then show ?thesis
    by simp
qed

section \<open>C4: repeating a request\<close>

text \<open>
  C4, as stated, fails: two identical requests less than 60 seconds apart do not always
  share one network fetch.  A call served from the cache does not renew the entry, so the
  60 seconds run from the moment the entry was stored.  An entry stored at time 100 serves
  a call at time 59000; the same request 2 seconds later, at time 61000, finds the entry
  expired, sends a request and returns what the provider has then.
\<close>

theorem second_call_after_cached_call_fetches:
  "fetchNearbyOsmPlaces intString (serving (JObj [])) sampleOrigin sampleOptions
       (atTime 59000 warmWorld)
     = (Inr [grandCafe, cityHospital], atTime 59000 warmWorld)
   \<and> now (atTime 61000 (atTime 59000 warmWorld)) - now (atTime 59000 warmWorld) < 60000
   \<and> fst (fetchNearbyOsmPlaces intString (serving (JObj [])) sampleOrigin sampleOptions
              (atTime 61000 (atTime 59000 warmWorld))) = Inr []
   \<and> fetchCount (trace (snd (fetchNearbyOsmPlaces intString (serving (JObj [])) sampleOrigin
                                 sampleOptions (atTime 61000 (atTime 59000 warmWorld)))))
       = fetchCount (trace (atTime 59000 warmWorld)) + 1"
proof -
  have b: "fetchNearbyOsmPlaces intString (serving (JObj [])) sampleOrigin sampleOptions
       (atTime 59000 warmWorld)
     = (Inr (data \<lparr>at_ms = 100, data = [grandCafe, cityHospital]\<rparr>), atTime 59000 warmWorld)"
    by (rule fetch_hit) simp_all
  have w: "atTime 61000 (atTime 59000 warmWorld) = atTime 61000 warmWorld"
    by (simp add: atTime_def)
  show ?thesis
    using b by (simp add: w stale_sample_call fetchCount_def)
qed

text \<open>
  C4, amended.  When a call for a non-empty category list has resolved with \<open>r\<close>, the
  cache holds an entry with the data \<open>r\<close> for its fingerprint; issuing the same request
  again while that entry is in the cache and less than 60 seconds old returns \<open>r\<close> and
  changes nothing: no request is sent, nothing is normalised, nothing is stored.  The 60
  seconds count from the time the entry was stored, which is the end of the first call
  when that call was not itself served from the cache.
\<close>

theorem repeated_request_within_entry_age:
  assumes "kinds opts \<noteq> []"
    and "fetchNearbyOsmPlaces nts net origin opts w = (Inr r, w1)"
  shows "\<exists>c. cache w1 (cacheKey nts origin opts) = Some c
           \<and> data c = r
           \<and> (\<not> fresh w (cacheKey nts origin opts) \<longrightarrow> at_ms c = now w1)
           \<and> (\<forall>w2 net'. cache w2 (cacheKey nts origin opts) = Some c \<longrightarrow>
                  now w2 - at_ms c < 60000 \<longrightarrow>
                  fetchNearbyOsmPlaces nts net' origin opts w2 = (Inr r, w2))"
proof -
  from fetch_result_cached[OF assms]
  obtain c where c: "cache w1 (cacheKey nts origin opts) = Some c" "data c = r"
      "\<not> fresh w (cacheKey nts origin opts) \<longrightarrow> at_ms c = now w1"
    by blast
  have "fetchNearbyOsmPlaces nts net' origin opts w2 = (Inr r, w2)"
    if "cache w2 (cacheKey nts origin opts) = Some c" "now w2 - at_ms c < 60000" for w2 net'
    using fetch_hit[OF assms(1) that] c(2) by simp
  with c show ?thesis
    by blast
qed

text \<open>
  The sample request, repeated 58.9 seconds after the call that fetched, against a
  provider that cannot be reached.
\<close>

theorem repeated_request_within_entry_age_witness:
  "fetchNearbyOsmPlaces intString unreachable sampleOrigin sampleOptions (atTime 59000 warmWorld)
     = (Inr [grandCafe, cityHospital], atTime 59000 warmWorld)
   \<and> now (atTime 59000 warmWorld) - now warmWorld < 60000"
proof -
  have k: "kinds sampleOptions \<noteq> []"
    by simp
  from repeated_request_within_entry_age [OF k first_sample_call_warm]
  obtain c where c: "cache warmWorld (cacheKey intString sampleOrigin sampleOptions) = Some c"
    and again: "\<forall>w2 net'. cache w2 (cacheKey intString sampleOrigin sampleOptions) = Some c \<longrightarrow>
        now w2 - at_ms c < 60000 \<longrightarrow>
        fetchNearbyOsmPlaces intString net' sampleOrigin sampleOptions w2
          = (Inr [grandCafe, cityHospital], w2)"
    by blast
  from c have at: "at_ms c = 100"
    by auto
  have "cache (atTime 59000 warmWorld) (cacheKey intString sampleOrigin sampleOptions) = Some c"
    using c by simp
  moreover have "now (atTime 59000 warmWorld) - at_ms c < 60000"
    using at by simp
  ultimately have "fetchNearbyOsmPlaces intString unreachable sampleOrigin sampleOptions
      (atTime 59000 warmWorld) = (Inr [grandCafe, cityHospital], atTime 59000 warmWorld)"
    using again by blast
  then show ?thesis
    by simp
qed

section \<open>C5: three failed attempts\<close>

text \<open>
  C5, as stated, fails: the \<^verbatim>\<open>catch\<close> block sleeps after every failed attempt, the last
  one included.  Against a provider that cannot be reached, the third request is followed
  by a sleep of 1200 ms, and only then is the error raised.
\<close>

theorem delay_after_final_attempt:
  "fst (overpassFetch unreachable ''q'' emptyWorld) = Inl NetworkError
   \<and> trace (snd (overpassFetch unreachable ''q'' emptyWorld)) =
       [Fetch ''https://overpass-api.de/api/interpreter'' ''q'', Sleep 400,
        Fetch ''https://overpass.kumi.systems/api/interpreter'' ''q'', Sleep 800,
        Fetch ''https://overpass.nchc.org.tw/api/interpreter'' ''q'', Sleep 1200]
   \<and> now (snd (overpassFetch unreachable ''q'' emptyWorld)) = 50 + 400 + 50 + 800 + 50 + 1200"
  unfolding overpassFetch_unfold
  by (simp add: attemptFetch_def unreachable_def emptyWorld_def sleep_def endpointFor_def
      OVERPASS_ENDPOINTS_def)

text \<open>
  C5, amended.  When every attempt fails, \<open>overpassFetch\<close> ends with an error after
  exactly 3 requests; attempt \<open>i\<close> (from 0) goes to endpoint \<open>i mod endpointCount\<close> and is
  followed by a delay of \<open>400 ms * (i + 1)\<close>: 400 ms and 800 ms between consecutive
  attempts, and 1200 ms after the final attempt, before the error is surfaced.
\<close>

theorem exhausted_retries_schedule:
  assumes "\<forall>h e. failing (net h e q)"
  shows "isl (fst (overpassFetch net q w))
    \<and> trace (snd (overpassFetch net q w)) =
        trace w @ concat (map (\<lambda>i. [Fetch (OVERPASS_ENDPOINTS ! (i mod length OVERPASS_ENDPOINTS)) q,
                                     Sleep (400 * (i + 1))]) [0..<3])
    \<and> fetchCount (trace (snd (overpassFetch net q w))) = fetchCount (trace w) + 3
    \<and> now w + 400 + 800 + 1200 \<le> now (snd (overpassFetch net q w))"
proof -
  have "[0..<3] = [0, 1, 2]"
    by (simp add: upt_rec)
  with overpassFetch_exhausted[of net q w] assms show ?thesis
    by (simp add: endpointFor_def fetchCount_def)
qed

text \<open>The provider that cannot be reached: three requests, one to each endpoint.\<close>

theorem exhausted_retries_schedule_witness:
  "isl (fst (overpassFetch unreachable ''q'' emptyWorld))
   \<and> trace (snd (overpassFetch unreachable ''q'' emptyWorld)) =
       [Fetch ''https://overpass-api.de/api/interpreter'' ''q'', Sleep 400,
        Fetch ''https://overpass.kumi.systems/api/interpreter'' ''q'', Sleep 800,
        Fetch ''https://overpass.nchc.org.tw/api/interpreter'' ''q'', Sleep 1200]
   \<and> fetchCount (trace (snd (overpassFetch unreachable ''q'' emptyWorld))) = 3"
proof -
  have f: "\<forall>h e. failing (unreachable h e ''q'')"
    by (simp add: unreachable_def)
  have "[0..<3] = [0, 1, 2]"
    by (simp add: upt_rec)
  with exhausted_retries_schedule [of unreachable "''q''" emptyWorld] f show ?thesis
    by (simp add: emptyWorld_def OVERPASS_ENDPOINTS_def fetchCount_def)
qed

section \<open>C6: an expired entry\<close>




section \<open>C7: the display name\<close>




section \<open>C8: the coordinate\<close>




section \<open>C9: a response without an element array\<close>

text \<open>
  C9, as stated, fails for one response without an \<^verbatim>\<open>elements\<close> field: the top-level
  value \<^verbatim>\<open>null\<close>.  Reading \<^verbatim>\<open>data.elements\<close> throws there, and the call rejects.
\<close>

theorem null_response_rejects:
  "fst (fetchNearbyOsmPlaces intString (serving JNull) sampleOrigin sampleOptions emptyWorld)
     = Inl TypeError"
proof -
  have k: "kinds sampleOptions \<noteq> []"
    by simp
  have f: "overpassFetch (serving JNull) (queryOf intString sampleOrigin sampleOptions) emptyWorld =
      (Inr JNull,
       emptyWorld\<lparr>now := now emptyWorld + int 100,
         trace := trace emptyWorld
           @ [Fetch (endpointFor 0) (queryOf intString sampleOrigin sampleOptions)]\<rparr>)"
    by (rule overpassFetch_first_ok [where st = 200]) (simp_all add: serving_def ok_def)
  show ?thesis
    unfolding fetch_miss [OF k emptyWorld_not_fresh] f
    by (simp add: normalizeResponse_def)
qed

text \<open>
  C9, amended.  When the response that the call receives is a JSON value other than
  \<^verbatim>\<open>null\<close> (an object, as the declared type \<^verbatim>\<open>{ elements?: any[] }\<close> says, but also
  an array, a string, a number or a boolean) and has no \<^verbatim>\<open>elements\<close> field, or one that
  is not an array (the response \<^verbatim>\<open>{}\<close> for instance), the call resolves with the empty
  list, which it also stores in the cache; it does not reject.
\<close>

theorem malformed_response_empty:
  assumes "kinds opts \<noteq> []"
    and "\<not> fresh w (cacheKey nts origin opts)"
    and "overpassFetch net (queryOf nts origin opts) w = (Inr d, w1)"
    and "d \<noteq> JNull"
    and "\<forall>els. getProp d ''elements'' \<noteq> Some (JArr els)"
  shows "fetchNearbyOsmPlaces nts net origin opts w =
           (Inr [], w1\<lparr>cache := (cache w1)(cacheKey nts origin opts \<mapsto>
                                      \<lparr>at_ms = now w1, data = []\<rparr>)\<rparr>)"
  using assms by (simp add: fetch_miss normalizeResponse_no_elements)

text \<open>The response \<^verbatim>\<open>{}\<close>, served to the sample request on an empty cache.\<close>

theorem malformed_response_empty_witness:
  "fst (fetchNearbyOsmPlaces intString (serving (JObj [])) sampleOrigin sampleOptions emptyWorld)
     = Inr []"
proof -
  have k: "kinds sampleOptions \<noteq> []"
    by (simp add: sampleOptions_def)
  have m: "\<not> fresh emptyWorld (cacheKey intString sampleOrigin sampleOptions)"
    by (simp add: fresh_def emptyWorld_def)
  have f: "overpassFetch (serving (JObj [])) (queryOf intString sampleOrigin sampleOptions) emptyWorld
      = (Inr (JObj []),
         emptyWorld\<lparr>now := now emptyWorld + int 100,
           trace := trace emptyWorld
             @ [Fetch (endpointFor 0) (queryOf intString sampleOrigin sampleOptions)]\<rparr>)"
    by (rule overpassFetch_first_ok [where st = 200]) (simp_all add: serving_def ok_def)
  have n: "JObj [] \<noteq> JNull"
    by simp
  have e: "\<forall>els. getProp (JObj []) ''elements'' \<noteq> Some (JArr els)"
    by simp
  from malformed_response_empty [OF k m f n e] show ?thesis
    by simp
qed

section \<open>C10: the text filter\<close>

text \<open>
  C10.  When the text filter, trimmed and lower-cased, is not empty, a call that fetches
  returns the first \<open>limit\<close> entries of the list of exactly those normalised places
  whose name or address contains the trimmed filter as a case-insensitive substring, in
  the order of the response: the filter runs over all normalised places, and the limit is
  applied to what it leaves.
\<close>

theorem text_filter_before_limit:
  assumes "query opts = Some f"
    and "toLowerCase (trim f) \<noteq> []"
    and "kinds opts \<noteq> []"
    and "\<not> fresh w (cacheKey nts origin opts)"
    and "overpassFetch net (queryOf nts origin opts) w = (Inr d, w1)"
    and "d \<noteq> JNull"
    and "mapped nts (elementsOf d) = Inr ps"
  shows "fst (fetchNearbyOsmPlaces nts net origin opts w) =
           Inr (take (nat \<lfloor>clampLimit (limit opts)\<rfloor>)
                  (filter (\<lambda>p. containsIgnoringCase (name p) (trim f)
                              \<or> containsIgnoringCase (address p) (trim f)) ps))"
proof -
  have q: "queryLower (query opts) \<noteq> []"
    using assms(1,2) by (simp add: queryLower_def)
  have "filtered (queryLower (query opts)) ps =
      filter (\<lambda>p. containsIgnoringCase (name p) (trim f)
                  \<or> containsIgnoringCase (address p) (trim f)) ps"
  proof -
    have "matches (queryLower (Some f)) =
        (\<lambda>p. containsIgnoringCase (name p) (trim f) \<or> containsIgnoringCase (address p) (trim f))"
      by (rule ext) (rule matches_queryLower)
    with q assms(1) show ?thesis
      by (simp add: filtered_def)
  qed
  then have "normalizeResponse nts (queryLower (query opts)) (clampLimit (limit opts)) d =
      Inr (take (nat \<lfloor>clampLimit (limit opts)\<rfloor>)
             (filter (\<lambda>p. containsIgnoringCase (name p) (trim f)
                         \<or> containsIgnoringCase (address p) (trim f)) ps))"
    using assms(6,7) by (simp add: normalizeResponse_def slice0_def)
  with assms(5) show ?thesis
    by (simp add: fetch_miss[OF assms(3,4)])
qed

text \<open>
  The places Grand Cafe and City Hospital with the filter \<^verbatim>\<open>" CAFE "\<close>: only Grand Cafe
  is returned.
\<close>

theorem text_filter_before_limit_witness:
  "fst (fetchNearbyOsmPlaces intString (serving twoPlaces) sampleOrigin
          (sampleOptions\<lparr>query := Some '' CAFE ''\<rparr>) emptyWorld) = Inr [grandCafe]"
proof -
  let ?opts = "sampleOptions\<lparr>query := Some '' CAFE ''\<rparr>"
  have q: "query ?opts = Some '' CAFE ''"
    by simp
  have ne: "toLowerCase (trim '' CAFE '') \<noteq> []"
    by (simp add: trim_CAFE lower_CAFE)
  have k: "kinds ?opts \<noteq> []"
    by (simp add: sampleOptions_def)
  have m: "\<not> fresh emptyWorld (cacheKey intString sampleOrigin ?opts)"
    by (rule emptyWorld_not_fresh)
  have f: "overpassFetch (serving twoPlaces) (queryOf intString sampleOrigin ?opts) emptyWorld =
      (Inr twoPlaces,
       emptyWorld\<lparr>now := now emptyWorld + int 100,
         trace := trace emptyWorld @ [Fetch (endpointFor 0) (queryOf intString sampleOrigin ?opts)]\<rparr>)"
    by (rule overpassFetch_first_ok [where st = 200]) (simp_all add: serving_def ok_def)
  have cafe: "containsIgnoringCase (name grandCafe) (trim '' CAFE '')"
    by (simp add: containsIgnoringCase_includes grandCafe_def trim_CAFE lower_CAFE lower_Grand_Cafe)
  have hosp: "\<not> containsIgnoringCase (name cityHospital) (trim '' CAFE '')"
    by (simp add: containsIgnoringCase_includes cityHospital_def trim_CAFE lower_CAFE
        lower_City_Hospital)
  have addr: "\<not> containsIgnoringCase (address cityHospital) (trim '' CAFE '')"
    by (simp add: containsIgnoringCase_includes cityHospital_def trim_CAFE lower_CAFE
        toLowerCase_def)
  have l: "nat \<lfloor>clampLimit (limit sampleOptions)\<rfloor> = 10"
    by (simp add: sampleOptions_def clampLimit_def)
  from text_filter_before_limit [OF q ne k m f twoPlaces_not_null mapped_twoPlaces]
  show ?thesis
    by (simp add: cafe hosp addr l)
qed

end
